theory Spec2Isabelle
  imports
    Complex_Main
    "HOL-Library.Char_ord"
    "HOL-Library.List_Lexorder"
    "HOL-Library.Product_Lexorder"
begin

section \<open>Air quality versus age demographics: the embedded pipelines\<close>

text \<open>
  The scripts of the repository are linear pandas pipelines. The embedding keeps their
  control flow and models the values they handle as follows.
  \<^item> A Python float is a \<^typ>\<open>real\<close>; the value NaN is \<open>None\<close> of
    \<^typ>\<open>real option\<close> wherever the source can meet it (a column cell, a column
    mean). Rounding and the infinities are not modelled.
  \<^item> A Python exception is a value of \<open>py_error\<close>; a function that can raise
    returns \<open>py_error + 'a\<close>.
  \<^item> A data frame read from a CSV file is a list of named, typed columns.
  \<^item> \<open>print\<close> calls are left out, except where a claim speaks of a message.
  File names are ASCII strings.
\<close>

subsection \<open>Python primitives used by the scripts\<close>

datatype py_error =
    ValueError
  | IndexError
  | KeyError string
  | TypeError
  | AttributeError
  | EmptyDataError
  | ParserError
  | QhullError

text \<open>\<open>str.split()\<close> with no argument: split on runs of whitespace, no empty tokens.\<close>

definition is_space :: "char \<Rightarrow> bool" where
  "is_space c = ((of_char c :: nat) \<in> {9, 10, 11, 12, 13, 28, 29, 30, 31, 32})"

fun split_acc :: "string \<Rightarrow> string \<Rightarrow> string list" where
  "split_acc cur [] = (if cur = [] then [] else [rev cur])"
| "split_acc cur (c # cs) =
     (if is_space c
      then (if cur = [] then split_acc [] cs else rev cur # split_acc [] cs)
      else split_acc (c # cur) cs)"

definition py_split :: "string \<Rightarrow> string list" where
  "py_split s = split_acc [] s"

text \<open>
  \<open>int(s)\<close> on a token without whitespace: an optional sign, then decimal digits,
  single underscores allowed between digits; anything else raises \<open>ValueError\<close>.
\<close>

definition is_digit :: "char \<Rightarrow> bool" where
  "is_digit c = (48 \<le> (of_char c :: nat) \<and> (of_char c :: nat) \<le> 57)"

definition digit_val :: "char \<Rightarrow> int" where
  "digit_val c = int (of_char c) - 48"

fun digits_acc :: "bool \<Rightarrow> int \<Rightarrow> string \<Rightarrow> int option" where
  "digits_acc prev acc [] = (if prev then Some acc else None)"
| "digits_acc prev acc (c # cs) =
     (if is_digit c then digits_acc True (10 * acc + digit_val c) cs
      else if c = CHR ''_'' \<and> prev then digits_acc False acc cs
      else None)"

definition py_int :: "string \<Rightarrow> py_error + int" where
  "py_int s =
     (case s of
        [] \<Rightarrow> Inl ValueError
      | c # cs \<Rightarrow>
          (if c = CHR ''-'' then
             (case digits_acc False 0 cs of None \<Rightarrow> Inl ValueError | Some n \<Rightarrow> Inr (- n))
           else if c = CHR ''+'' then
             (case digits_acc False 0 cs of None \<Rightarrow> Inl ValueError | Some n \<Rightarrow> Inr n)
           else
             (case digits_acc False 0 s of None \<Rightarrow> Inl ValueError | Some n \<Rightarrow> Inr n)))"

text \<open>\<open>Series.mean()\<close> of a float column: NaN cells are skipped; no value left gives NaN.\<close>

definition mean_skipna :: "real option list \<Rightarrow> real option" where
  "mean_skipna xs =
     (let vs = List.map_filter id xs
      in if vs = [] then None else Some (sum_list vs / real (length vs)))"

subsection \<open>PurpleAir sensor files\<close>

text \<open>
  A frame that \<open>pd.read_csv\<close> returns: named columns, each either of floats with NaN
  (a numeric dtype) or of text cells (object dtype: one cell that is not a number makes
  the whole column text). All columns of a frame have the same number of cells. Text
  columns with missing cells are not modelled.
\<close>

datatype column =
    TextCol "string list"
  | FloatCol "real option list"

type_synonym data_frame = "(string \<times> column) list"

text \<open>
  \<open>Series.mean()\<close> of a column: a float column gives its mean, NaN skipped; a column
  with text in it raises \<open>TypeError\<close>; a text column of no cells gives NaN.
\<close>

definition series_mean :: "column \<Rightarrow> py_error + real option" where
  "series_mean col =
     (case col of
        FloatCol xs \<Rightarrow> Inr (mean_skipna xs)
      | TextCol ss \<Rightarrow> (if ss = [] then Inr None else Inl TypeError))"

text \<open>
  One file of the PurpleAir directory: its base name and what \<open>pd.read_csv\<close> makes of
  it: the exception it raises (an empty file, a file that does not parse) or the frame
  it returns. The loops take the files in the order \<open>glob\<close> lists them.
\<close>

datatype csv_content =
    Unreadable py_error
  | Frame data_frame

record sensor_file =
  filename :: string
  content :: csv_content

record air_row =
  lat :: real
  lon :: real
  pm25 :: real
  sensor_id :: int

type_synonym sensor_lookup = "int \<rightharpoonup> (real \<times> real)"

text \<open>\<open>sensor_id = int(filename.split()[0])\<close>\<close>

definition sensor_id_of :: "string \<Rightarrow> py_error + int" where
  "sensor_id_of name =
     (case py_split name of
        [] \<Rightarrow> Inl IndexError
      | tok # _ \<Rightarrow> py_int tok)"

text \<open>\<open>pd.read_csv(csv_file)\<close>\<close>

definition read_csv :: "sensor_file \<Rightarrow> py_error + data_frame" where
  "read_csv f = (case content f of Unreadable e \<Rightarrow> Inl e | Frame df \<Rightarrow> Inr df)"

subsubsection \<open>PurpleAirDataAnalysis/main.py: process_purpleair_data\<close>

record main_state =
  air_data :: "air_row list"
  processed :: nat
  skipped :: nat

definition main_skip :: "main_state \<Rightarrow> main_state" where
  "main_skip st = st\<lparr>skipped := skipped st + 1\<rparr>"

text \<open>One pass of the \<open>for csv_file in csv_files\<close> body, with its \<open>try\<close>/\<open>except\<close>.\<close>

definition main_iteration :: "sensor_lookup \<Rightarrow> sensor_file \<Rightarrow> main_state \<Rightarrow> main_state" where
  "main_iteration sensor_lookup f st =
     (case sensor_id_of (filename f) of
        Inl e \<Rightarrow> main_skip st
      | Inr sid \<Rightarrow>
          (case sensor_lookup sid of
             None \<Rightarrow> main_skip st
           | Some (la, lo) \<Rightarrow>
               (case read_csv f of
                  Inl e \<Rightarrow> main_skip st
                | Inr df \<Rightarrow>
                    (case map_of df ''pm2.5_cf_1'' of
                       None \<Rightarrow> main_skip st
                     | Some col \<Rightarrow>
                         (case series_mean col of
                            Inl e \<Rightarrow> main_skip st
                          | Inr None \<Rightarrow> main_skip st
                          | Inr (Some raw_pm25) \<Rightarrow>
                              (let corrected_pm25 = (0.778 * raw_pm25) + 2.65
                               in if corrected_pm25 > 500 then main_skip st
                                  else st\<lparr>air_data := air_data st @
                                            [\<lparr>lat = la, lon = lo, pm25 = corrected_pm25,
                                              sensor_id = sid\<rparr>],
                                          processed := processed st + 1\<rparr>))))))"

fun main_loop :: "sensor_lookup \<Rightarrow> sensor_file list \<Rightarrow> main_state \<Rightarrow> main_state" where
  "main_loop sensor_lookup [] st = st"
| "main_loop sensor_lookup (f # fs) st = main_loop sensor_lookup fs (main_iteration sensor_lookup f st)"

definition process_purpleair_data_main :: "sensor_file list \<Rightarrow> sensor_lookup \<Rightarrow> main_state" where
  "process_purpleair_data_main csv_files sensor_lookup =
     main_loop sensor_lookup csv_files \<lparr>air_data = [], processed = 0, skipped = 0\<rparr>"

subsubsection \<open>PurpleAirDataAnalysis/purpleair_analysis.py: process_purpleair_data\<close>

definition PM25_CORRECTION_SLOPE :: real where
  "PM25_CORRECTION_SLOPE = 0.778"

definition PM25_CORRECTION_INTERCEPT :: real where
  "PM25_CORRECTION_INTERCEPT = 2.65"

definition PM25_OUTLIER_THRESHOLD :: real where
  "PM25_OUTLIER_THRESHOLD = 500"

record analysis_state =
  a_air_data :: "air_row list"
  a_processed :: nat
  a_skipped :: nat
  a_outliers :: nat

definition analysis_skip :: "analysis_state \<Rightarrow> analysis_state" where
  "analysis_skip st = st\<lparr>a_skipped := a_skipped st + 1\<rparr>"

definition analysis_iteration ::
  "sensor_lookup \<Rightarrow> sensor_file \<Rightarrow> analysis_state \<Rightarrow> analysis_state" where
  "analysis_iteration sensor_lookup f st =
     (case sensor_id_of (filename f) of
        Inl e \<Rightarrow> analysis_skip st
      | Inr sid \<Rightarrow>
          (case sensor_lookup sid of
             None \<Rightarrow> analysis_skip st
           | Some (la, lo) \<Rightarrow>
               (case read_csv f of
                  Inl e \<Rightarrow> analysis_skip st
                | Inr df \<Rightarrow>
                    (case map_of df ''pm2.5_cf_1'' of
                       None \<Rightarrow> analysis_skip st
                     | Some col \<Rightarrow>
                         (case series_mean col of
                            Inl e \<Rightarrow> analysis_skip st
                          | Inr None \<Rightarrow> analysis_skip st
                          | Inr (Some raw_pm25) \<Rightarrow>
                              (let corrected_pm25 =
                                     (PM25_CORRECTION_SLOPE * raw_pm25) + PM25_CORRECTION_INTERCEPT
                               in if corrected_pm25 > PM25_OUTLIER_THRESHOLD
                                  then st\<lparr>a_outliers := a_outliers st + 1\<rparr>
                                  else st\<lparr>a_air_data := a_air_data st @
                                            [\<lparr>lat = la, lon = lo, pm25 = corrected_pm25,
                                              sensor_id = sid\<rparr>],
                                          a_processed := a_processed st + 1\<rparr>))))))"

fun analysis_loop ::
  "sensor_lookup \<Rightarrow> sensor_file list \<Rightarrow> analysis_state \<Rightarrow> analysis_state" where
  "analysis_loop sensor_lookup [] st = st"
| "analysis_loop sensor_lookup (f # fs) st =
     analysis_loop sensor_lookup fs (analysis_iteration sensor_lookup f st)"

definition process_purpleair_data :: "sensor_file list \<Rightarrow> sensor_lookup \<Rightarrow> analysis_state" where
  "process_purpleair_data csv_files sensor_lookup =
     analysis_loop sensor_lookup csv_files
       \<lparr>a_air_data = [], a_processed = 0, a_skipped = 0, a_outliers = 0\<rparr>"

subsubsection \<open>calculate_statistics.py: the module-level PurpleAir loop\<close>

definition stats_iteration :: "sensor_lookup \<Rightarrow> sensor_file \<Rightarrow> air_row list \<Rightarrow> air_row list" where
  "stats_iteration sensor_lookup f air =
     (case sensor_id_of (filename f) of
        Inl e \<Rightarrow> air
      | Inr sid \<Rightarrow>
          (case sensor_lookup sid of
             None \<Rightarrow> air
           | Some (la, lo) \<Rightarrow>
               (case read_csv f of
                  Inl e \<Rightarrow> air
                | Inr df \<Rightarrow>
                    (case map_of df ''pm2.5_cf_1'' of
                       None \<Rightarrow> air
                     | Some col \<Rightarrow>
                         (case series_mean col of
                            Inl e \<Rightarrow> air
                          | Inr None \<Rightarrow> air
                          | Inr (Some raw_pm25) \<Rightarrow>
                              (let corrected_pm25 = (0.778 * raw_pm25) + 2.65
                               in if corrected_pm25 > 500 then air
                                  else air @ [\<lparr>lat = la, lon = lo, pm25 = corrected_pm25,
                                               sensor_id = sid\<rparr>]))))))"

fun stats_loop :: "sensor_lookup \<Rightarrow> sensor_file list \<Rightarrow> air_row list \<Rightarrow> air_row list" where
  "stats_loop sensor_lookup [] air = air"
| "stats_loop sensor_lookup (f # fs) air =
     stats_loop sensor_lookup fs (stats_iteration sensor_lookup f air)"

definition stats_air_data :: "sensor_file list \<Rightarrow> sensor_lookup \<Rightarrow> air_row list" where
  "stats_air_data csv_files sensor_lookup = stats_loop sensor_lookup csv_files []"

subsection \<open>AQI bands (PurpleAirDataAnalysis/main.py)\<close>

text \<open>The helper nested in \<open>create_data_analysis_plots\<close> (static analysis plots).\<close>

definition get_aqi_category :: "real \<Rightarrow> string" where
  "get_aqi_category v =
     (if v < 12 then ''Good''
      else if v < 35 then ''Moderate''
      else ''Unhealthy'')"

definition get_pm25_color :: "real \<Rightarrow> string" where
  "get_pm25_color pm25_value =
     (if pm25_value < 12 then ''green''
      else if pm25_value < 35 then ''orange''
      else ''red'')"

text \<open>The \<open>status\<close> computed inline for each marker in \<open>create_interactive_map\<close>.\<close>

definition marker_status :: "real \<Rightarrow> string" where
  "marker_status v =
     (if v < 12 then ''Good''
      else if v < 35 then ''Moderate''
      else ''Unhealthy for Sensitive Groups'')"

text \<open>
  The legend of the interactive map is fixed HTML text, three lines of a colour swatch
  and a label; an entry is (colour, band name, range as written), the unit left out.
\<close>

definition legend_html :: "(string \<times> string \<times> string) list" where
  "legend_html =
     [(''green'', ''Good'', ''&lt;12''),
      (''orange'', ''Moderate'', ''12-35''),
      (''red'', ''Unhealthy'', ''&gt;35'')]"

subsection \<open>Spatial interpolation (PurpleAirDataAnalysis/main.py)\<close>

type_synonym point = "real \<times> real"


text \<open>
  \<open>np.meshgrid(grid_x, grid_y)\<close>: the lattice, one row for each value of \<open>grid_y\<close>;
  the two coordinate arrays are kept together as an array of points.
\<close>

definition meshgrid :: "real list \<Rightarrow> real list \<Rightarrow> point list list" where
  "meshgrid grid_x grid_y = map (\<lambda>y. map (\<lambda>x. (x, y)) grid_x) grid_y"







subsection \<open>Geo-census merge (PurpleAirDataAnalysis/main.py, EPADataAnalysis/main.py)\<close>

text \<open>
  A row of the tract shapefile, with its polygon of an unspecified type \<open>'g\<close>; the
  polygon's area (\<open>geometry.area\<close>) is a parameter of the merge.
\<close>

record 'g shape_row =
  GEOID :: string
  NAMELSAD :: string
  geometry :: 'g

text \<open>The frame \<open>process_census_data\<close> returns in PurpleAirDataAnalysis/main.py.\<close>

record census_row =
  c_GEOID :: string
  c_NAME :: string
  pop_80_plus :: real
  pop_80_plus_pct :: real

text \<open>The frame \<open>process_census_data\<close> returns in EPADataAnalysis/main.py.\<close>

record epa_census_row =
  e_GEOID :: string
  e_NAME :: string
  pop_65_plus :: real
  pop_65_plus_pct :: real
  pop_85_plus :: real
  pop_85_plus_pct :: real

text \<open>
  \<open>gdf.merge(census_df, on='GEOID', how='inner')\<close>: the pairs of rows with equal keys,
  in the order of the left frame.
\<close>

definition inner_merge ::
  "('c \<Rightarrow> string) \<Rightarrow> 'g shape_row list \<Rightarrow> 'c list \<Rightarrow> ('g shape_row \<times> 'c) list" where
  "inner_merge key gdf census_df =
     concat (map (\<lambda>g. map (Pair g) (filter (\<lambda>c. key c = GEOID g) census_df)) gdf)"

text \<open>
  \<open>Series.quantile(0.95)\<close>, linear interpolation: on the sorted values, at the
  fractional index \<open>(n - 1) * 0.95\<close>; NaN on an empty series. The index is split
  into its integer part \<open>(n - 1) * 95 div 100\<close> and its fraction.
\<close>

definition quantile_095 :: "real list \<Rightarrow> real option" where
  "quantile_095 xs =
     (if xs = [] then None
      else
        (let s = sort xs;
             n = length xs;
             lo = ((n - 1) * 95) div 100;
             fr = real (((n - 1) * 95) mod 100) / 100
         in Some (if lo + 1 < n then s ! lo + fr * (s ! (lo + 1) - s ! lo) else s ! lo)))"

text \<open>\<open>a > q\<close> where \<open>q\<close> may be NaN: a comparison with NaN is false.\<close>

definition exceeds :: "real \<Rightarrow> real option \<Rightarrow> bool" where
  "exceeds a q = (case q of None \<Rightarrow> False | Some v \<Rightarrow> a > v)"

text \<open>
  The two \<open>merge_geo_and_census\<close> functions differ in the population column only
  (\<open>pop_80_plus\<close>, \<open>pop_65_plus\<close>); their common body takes the column as \<open>pop\<close>.
\<close>

definition merge_body ::
  "('c \<Rightarrow> string) \<Rightarrow> ('c \<Rightarrow> real) \<Rightarrow> ('g \<Rightarrow> real) \<Rightarrow>
   'g shape_row list \<Rightarrow> 'c list \<Rightarrow> ('g shape_row \<times> 'c) list" where
  "merge_body key pop area gdf census_df =
     (let merged0 = inner_merge key gdf census_df;
          merged = filter (\<lambda>r. pop (snd r) > 0) merged0;
          area_m2 = (\<lambda>r. area (geometry (fst r)));
          area_95th = quantile_095 (map area_m2 merged);
          outlier_mask = (\<lambda>r. pop (snd r) < 10 \<and> exceeds (area_m2 r) area_95th);
          outlier_tracts = filter outlier_mask merged
      in if length outlier_tracts > 0
         then filter (\<lambda>r. \<not> outlier_mask r) merged
         else merged)"

definition merge_geo_and_census ::
  "('g \<Rightarrow> real) \<Rightarrow> 'g shape_row list \<Rightarrow> census_row list \<Rightarrow> ('g shape_row \<times> census_row) list" where
  "merge_geo_and_census area gdf census_df = merge_body c_GEOID pop_80_plus area gdf census_df"

definition merge_geo_and_census_epa ::
  "('g \<Rightarrow> real) \<Rightarrow> 'g shape_row list \<Rightarrow> epa_census_row list \<Rightarrow>
   ('g shape_row \<times> epa_census_row) list" where
  "merge_geo_and_census_epa area gdf census_df = merge_body e_GEOID pop_65_plus area gdf census_df"

subsection \<open>EPA records (EPADataAnalysis/main.py)\<close>

text \<open>
  The value of \<open>date_local\<close> after \<open>pd.to_datetime\<close>: a calendar day, compared
  in calendar order; a missing date (NaT) is \<open>None\<close>.
\<close>

record date =
  year :: nat
  month :: nat
  day :: nat

definition date_le :: "date \<Rightarrow> date \<Rightarrow> bool" where
  "date_le a b =
     (year a < year b \<or>
      (year a = year b \<and> (month a < month b \<or> (month a = month b \<and> day a \<le> day b))))"

definition INVERSION_START :: date where
  "INVERSION_START = \<lparr>year = 2025, month = 1, day = 1\<rparr>"

definition INVERSION_END :: date where
  "INVERSION_END = \<lparr>year = 2025, month = 1, day = 30\<rparr>"

record epa_row =
  site_number :: int
  local_site_name :: string
  latitude :: real
  longitude :: real
  date_local :: "date option"
  pm25_value :: "real option"

text \<open>
  \<open>mask = (df['date_local'] >= INVERSION_START) & (df['date_local'] <= INVERSION_END)\<close>;
  a comparison with NaT is false.
\<close>

definition in_window :: "epa_row \<Rightarrow> bool" where
  "in_window r =
     (case date_local r of
        None \<Rightarrow> False
      | Some d \<Rightarrow> date_le INVERSION_START d \<and> date_le d INVERSION_END)"

text \<open>
  \<open>groupby([site_number, local_site_name, latitude, longitude]).agg({'pm25_value': 'mean'})\<close>:
  one row per distinct key, keys in ascending order, the mean skipping NaN.
\<close>

type_synonym site_key = "int \<times> string \<times> real \<times> real"

definition key_of :: "epa_row \<Rightarrow> site_key" where
  "key_of r = (site_number r, local_site_name r, latitude r, longitude r)"

definition aggregate_sites :: "epa_row list \<Rightarrow> (site_key \<times> real option) list" where
  "aggregate_sites df =
     map (\<lambda>k. (k, mean_skipna (map pm25_value (filter (\<lambda>r. key_of r = k) df))))
       (sort (remdups (map key_of df)))"

text \<open>The messages of \<open>process_epa_data\<close> that tell which records are used.\<close>

datatype message =
    Filtered_to nat
  | Warning_no_data
  | Using_all nat

record epa_result =
  messages :: "message list"
  epa_sites :: "(site_key \<times> real option) list"
  df_filtered :: "epa_row list"

definition process_epa_data :: "epa_row list \<Rightarrow> epa_result" where
  "process_epa_data df =
     (let filtered = filter in_window df;
          log = [Filtered_to (length filtered)]
      in if length filtered = 0
         then \<lparr>messages = log @ [Warning_no_data, Using_all (length df)],
               epa_sites = aggregate_sites df,
               df_filtered = df\<rparr>
         else \<lparr>messages = log,
               epa_sites = aggregate_sites filtered,
               df_filtered = filtered\<rparr>)"

subsection \<open>Census statistics (calculate_statistics.py, module level)\<close>

text \<open>
  The census table is the frame \<open>pd.read_csv(census_path, skiprows=[1])\<close> returns.
\<close>

text \<open>\<open>df[name]\<close> read: a missing column raises \<open>KeyError\<close>.\<close>

definition get_col :: "data_frame \<Rightarrow> string \<Rightarrow> py_error + column" where
  "get_col df name = (case map_of df name of None \<Rightarrow> Inl (KeyError name) | Some c \<Rightarrow> Inr c)"

text \<open>\<open>df[name] = c\<close>: replaces the column of that name, or appends a new one.\<close>

fun set_col :: "data_frame \<Rightarrow> string \<Rightarrow> column \<Rightarrow> data_frame" where
  "set_col [] name c = [(name, c)]"
| "set_col ((n, c') # df) name c =
     (if n = name then (n, c) # df else (n, c') # set_col df name c)"

text \<open>
  \<open>pd.to_numeric(col, errors='coerce').fillna(0)\<close>. How pandas reads a number out of
  a text cell is the parameter \<open>num_of_text\<close> (\<open>None\<close>: not a number, coerced to NaN).
\<close>

definition to_numeric_fillna :: "(string \<Rightarrow> real option) \<Rightarrow> column \<Rightarrow> column" where
  "to_numeric_fillna num_of_text col =
     (case col of
        FloatCol xs \<Rightarrow> FloatCol (map (\<lambda>x. Some (case x of None \<Rightarrow> 0 | Some v \<Rightarrow> v)) xs)
      | TextCol ss \<Rightarrow>
          FloatCol (map (\<lambda>s. Some (case num_of_text s of None \<Rightarrow> 0 | Some v \<Rightarrow> v)) ss))"

definition age_columns :: "string list" where
  "age_columns =
     [''B01001_020E'', ''B01001_021E'', ''B01001_022E'', ''B01001_023E'', ''B01001_024E'',
      ''B01001_025E'', ''B01001_044E'', ''B01001_045E'', ''B01001_046E'', ''B01001_047E'',
      ''B01001_048E'', ''B01001_049E'']"

text \<open>\<open>for col in age_columns: df_census[col] = pd.to_numeric(df_census[col], ...)\<close>\<close>

fun convert_columns ::
  "(string \<Rightarrow> real option) \<Rightarrow> string list \<Rightarrow> data_frame \<Rightarrow> py_error + data_frame" where
  "convert_columns num_of_text [] df = Inr df"
| "convert_columns num_of_text (c # cs) df =
     (case get_col df c of
        Inl e \<Rightarrow> Inl e
      | Inr col \<Rightarrow> convert_columns num_of_text cs (set_col df c (to_numeric_fillna num_of_text col)))"

definition col_length :: "column \<Rightarrow> nat" where
  "col_length c = (case c of TextCol ss \<Rightarrow> length ss | FloatCol xs \<Rightarrow> length xs)"

definition nrows :: "data_frame \<Rightarrow> nat" where
  "nrows df = (case df of [] \<Rightarrow> 0 | (n, c) # rest \<Rightarrow> col_length c)"

text \<open>
  \<open>df[names].sum(axis=1)\<close>: the sum of each row over the named columns, NaN counted
  as 0. Every named column has just been converted to floats; a text column, which
  cannot occur here, would add nothing.
\<close>

definition float_cells :: "column \<Rightarrow> real list" where
  "float_cells c =
     (case c of
        FloatCol xs \<Rightarrow> map (\<lambda>x. case x of None \<Rightarrow> 0 | Some v \<Rightarrow> v) xs
      | TextCol ss \<Rightarrow> map (\<lambda>s. 0) ss)"

fun row_sums :: "data_frame \<Rightarrow> string list \<Rightarrow> real list" where
  "row_sums df [] = replicate (nrows df) 0"
| "row_sums df (c # cs) =
     (case map_of df c of
        None \<Rightarrow> row_sums df cs
      | Some col \<Rightarrow> map (\<lambda>(a, b). a + b) (zip (float_cells col) (row_sums df cs)))"

text \<open>\<open>s.replace(old, '')\<close> for a non-empty \<open>old\<close>: every occurrence, left to right.\<close>

fun remove_acc :: "string \<Rightarrow> nat \<Rightarrow> string \<Rightarrow> string" where
  "remove_acc old k [] = []"
| "remove_acc old k (c # cs) =
     (if k > 0 then remove_acc old (k - 1) cs
      else if old \<noteq> [] \<and> take (length old) (c # cs) = old
      then remove_acc old (length old - 1) cs
      else c # remove_acc old 0 cs)"

definition str_remove :: "string \<Rightarrow> string \<Rightarrow> string" where
  "str_remove old s = remove_acc old 0 s"

text \<open>\<open>col.str.replace(old, '', regex=False)\<close>: the accessor needs a text column.\<close>

definition col_str_remove :: "string \<Rightarrow> column \<Rightarrow> py_error + string list" where
  "col_str_remove old col =
     (case col of
        TextCol ss \<Rightarrow> Inr (map (str_remove old) ss)
      | FloatCol xs \<Rightarrow> Inl AttributeError)"

definition startswith :: "string \<Rightarrow> string \<Rightarrow> bool" where
  "startswith s pre = (take (length pre) s = pre)"

text \<open>\<open>df[mask]\<close>: the rows where the mask holds, in every column.\<close>

definition keep_cells :: "bool list \<Rightarrow> 'a list \<Rightarrow> 'a list" where
  "keep_cells keep xs = map snd (filter fst (zip keep xs))"

definition filter_rows :: "bool list \<Rightarrow> data_frame \<Rightarrow> data_frame" where
  "filter_rows keep df =
     map (\<lambda>(n, c). (n, case c of TextCol ss \<Rightarrow> TextCol (keep_cells keep ss)
                                | FloatCol xs \<Rightarrow> FloatCol (keep_cells keep xs))) df"

text \<open>
  \<open>col > 0\<close>: false on NaN; a text cell cannot be compared with a number.
\<close>

definition col_gt_zero :: "column \<Rightarrow> py_error + bool list" where
  "col_gt_zero col =
     (case col of
        FloatCol xs \<Rightarrow> Inr (map (\<lambda>x. case x of None \<Rightarrow> False | Some v \<Rightarrow> v > 0) xs)
      | TextCol ss \<Rightarrow> (if ss = [] then Inr [] else Inl TypeError))"

text \<open>What the first block of the census summary prints.\<close>

record census_summary =
  total_tracts :: nat
  inhabited_tracts :: nat
  total_population :: real

text \<open>
  The census section, from \<open>pd.read_csv\<close> (its result is \<open>df_census\<close>) to the first
  block of the summary. An exception ends the script: the section is not in a
  \<open>try\<close>.
\<close>

definition census_statistics ::
  "(string \<Rightarrow> real option) \<Rightarrow> data_frame \<Rightarrow> py_error + census_summary" where
  "census_statistics num_of_text df_census =
     (case convert_columns num_of_text age_columns df_census of
        Inl e \<Rightarrow> Inl e
      | Inr df1 \<Rightarrow>
          (let df2 = set_col df1 ''pop_65_plus'' (FloatCol (map Some (row_sums df1 age_columns)))
           in case get_col df2 ''GEO_ID'' of
                Inl e \<Rightarrow> Inl e
              | Inr geo \<Rightarrow>
                  (case col_str_remove ''1400000US'' geo of
                     Inl e \<Rightarrow> Inl e
                   | Inr geoid \<Rightarrow>
                       (let df3 = set_col df2 ''GEOID'' (TextCol geoid);
                            salt_lake_mask = map (\<lambda>s. startswith s ''49035'') geoid;
                            davis_mask = map (\<lambda>s. startswith s ''49011'') geoid;
                            study_area =
                              filter_rows (map (\<lambda>(a, b). a \<or> b) (zip salt_lake_mask davis_mask)) df3
                        in case get_col study_area ''pop_80_plus'' of
                             Inl e \<Rightarrow> Inl e
                           | Inr pop \<Rightarrow>
                               (case col_gt_zero pop of
                                  Inl e \<Rightarrow> Inl e
                                | Inr pop_mask \<Rightarrow>
                                    (let inhabited = filter_rows pop_mask study_area
                                     in case get_col inhabited ''pop_80_plus'' of
                                          Inl e \<Rightarrow> Inl e
                                        | Inr kept \<Rightarrow>
                                            Inr \<lparr>total_tracts = nrows study_area,
                                                 inhabited_tracts = nrows inhabited,
                                                 total_population =
                                                   sum_list (float_cells kept)\<rparr>))))))"

subsection \<open>Example inputs\<close>

definition example_lookup :: sensor_lookup where
  "example_lookup = [100865 \<mapsto> (40.76, -111.89), 100867 \<mapsto> (40.61, -111.93)]"

text \<open>A well-formed sensor export; its raw mean is 40.\<close>

definition example_file :: sensor_file where
  "example_file =
     \<lparr>filename = ''100865 2026-01-01 2026-01-25 60-Minute Average.csv'',
      content = Frame [(''time_stamp'', TextCol [''2026-01-01T00:00:00Z'',
                                                  ''2026-01-01T01:00:00Z'',
                                                  ''2026-01-01T02:00:00Z'']),
                       (''humidity'', FloatCol [Some 41, Some 39, Some 40]),
                       (''pm2.5_cf_1'', FloatCol [Some 30, None, Some 50])]\<rparr>"

text \<open>A CSV file of the directory that is not a sensor export.\<close>

definition notes_file :: sensor_file where
  "notes_file =
     \<lparr>filename = ''notes.csv'', content = Frame [(''pm2.5_cf_1'', FloatCol [Some 10])]\<rparr>"

text \<open>A sensor whose readings are implausible.\<close>

definition faulty_file :: sensor_file where
  "faulty_file =
     \<lparr>filename = ''100867 2026-01-01 2026-01-25 60-Minute Average.csv'',
      content = Frame [(''pm2.5_cf_1'', FloatCol [Some 700, Some 900])]\<rparr>"

text \<open>A sensor that the master list does not know.\<close>

definition unknown_file :: sensor_file where
  "unknown_file =
     \<lparr>filename = ''555 2026-01-01 2026-01-25 60-Minute Average.csv'',
      content = Frame [(''pm2.5_cf_1'', FloatCol [Some 8])]\<rparr>"

text \<open>A sensor export with a cell of the \<open>pm2.5_cf_1\<close> column that is not a number.\<close>

definition text_file :: sensor_file where
  "text_file =
     \<lparr>filename = ''100867 2025-12-01 2025-12-31 60-Minute Average.csv'',
      content = Frame [(''pm2.5_cf_1'', TextCol [''12.5'', ''error'', ''13.0''])]\<rparr>"

text \<open>Two exports of one sensor, for two periods; their raw means are 10 and 20.\<close>

definition december_file :: sensor_file where
  "december_file =
     \<lparr>filename = ''100865 2025-12-01 2025-12-31 60-Minute Average.csv'',
      content = Frame [(''pm2.5_cf_1'', FloatCol [Some 10])]\<rparr>"

definition january_file :: sensor_file where
  "january_file =
     \<lparr>filename = ''100865 2026-01-01 2026-01-25 60-Minute Average.csv'',
      content = Frame [(''pm2.5_cf_1'', FloatCol [Some 20])]\<rparr>"




text \<open>
  Five tracts of the shapefile, the polygon given by its area, and the census rows of
  four of them: three with 5 residents in the band, one with none.
\<close>

definition example_gdf :: "real shape_row list" where
  "example_gdf =
     [\<lparr>GEOID = ''49035100100'', NAMELSAD = ''Census Tract 1001'', geometry = 1\<rparr>,
      \<lparr>GEOID = ''49035100200'', NAMELSAD = ''Census Tract 1002'', geometry = 2\<rparr>,
      \<lparr>GEOID = ''49035980000'', NAMELSAD = ''Census Tract 9800'', geometry = 3\<rparr>,
      \<lparr>GEOID = ''49035110100'', NAMELSAD = ''Census Tract 1101'', geometry = 1.5\<rparr>,
      \<lparr>GEOID = ''49011125101'', NAMELSAD = ''Census Tract 1251.01'', geometry = 1\<rparr>]"

definition example_census :: "census_row list" where
  "example_census =
     [\<lparr>c_GEOID = ''49035980000'', c_NAME = ''Tract 9800'', pop_80_plus = 5, pop_80_plus_pct = 1\<rparr>,
      \<lparr>c_GEOID = ''49035100100'', c_NAME = ''Tract 1001'', pop_80_plus = 5, pop_80_plus_pct = 2\<rparr>,
      \<lparr>c_GEOID = ''49035100200'', c_NAME = ''Tract 1002'', pop_80_plus = 5, pop_80_plus_pct = 2\<rparr>,
      \<lparr>c_GEOID = ''49035110100'', c_NAME = ''Tract 1101'', pop_80_plus = 0, pop_80_plus_pct = 0\<rparr>]"

definition example_epa_census :: "epa_census_row list" where
  "example_epa_census =
     [\<lparr>e_GEOID = ''49035980000'', e_NAME = ''Tract 9800'', pop_65_plus = 5, pop_65_plus_pct = 1,
       pop_85_plus = 0, pop_85_plus_pct = 0\<rparr>,
      \<lparr>e_GEOID = ''49035100100'', e_NAME = ''Tract 1001'', pop_65_plus = 5, pop_65_plus_pct = 2,
       pop_85_plus = 1, pop_85_plus_pct = 1\<rparr>,
      \<lparr>e_GEOID = ''49035100200'', e_NAME = ''Tract 1002'', pop_65_plus = 5, pop_65_plus_pct = 2,
       pop_85_plus = 1, pop_85_plus_pct = 1\<rparr>,
      \<lparr>e_GEOID = ''49035110100'', e_NAME = ''Tract 1101'', pop_65_plus = 0, pop_65_plus_pct = 0,
       pop_85_plus = 0, pop_85_plus_pct = 0\<rparr>]"

text \<open>EPA records: two in the inversion window, one after it.\<close>

definition example_epa :: "epa_row list" where
  "example_epa =
     [\<lparr>site_number = 3006, local_site_name = ''Hawthorne'', latitude = 40.7, longitude = -111.8,
       date_local = Some \<lparr>year = 2025, month = 1, day = 15\<rparr>, pm25_value = Some 30\<rparr>,
      \<lparr>site_number = 4, local_site_name = ''Bountiful'', latitude = 40.9, longitude = -111.9,
       date_local = Some \<lparr>year = 2025, month = 2, day = 15\<rparr>, pm25_value = Some 10\<rparr>,
      \<lparr>site_number = 3006, local_site_name = ''Hawthorne'', latitude = 40.7, longitude = -111.8,
       date_local = Some \<lparr>year = 2025, month = 1, day = 16\<rparr>, pm25_value = Some 20\<rparr>]"

definition example_epa_late :: "epa_row list" where
  "example_epa_late =
     [\<lparr>site_number = 4, local_site_name = ''Bountiful'', latitude = 40.9, longitude = -111.9,
       date_local = Some \<lparr>year = 2025, month = 2, day = 15\<rparr>, pm25_value = Some 10\<rparr>]"

text \<open>An ACS table of three tracts, two of them in the study area.\<close>

definition example_acs :: data_frame where
  "example_acs =
     [(''GEO_ID'', TextCol [''1400000US49035100100'', ''1400000US49011125101'',
                            ''1400000US49049000101'']),
      (''B01001_020E'', FloatCol [Some 1, Some 2, Some 3]),
      (''B01001_021E'', FloatCol [Some 1, Some 2, Some 3]),
      (''B01001_022E'', FloatCol [Some 1, Some 2, Some 3]),
      (''B01001_023E'', FloatCol [Some 1, Some 2, Some 3]),
      (''B01001_024E'', FloatCol [Some 1, Some 2, Some 3]),
      (''B01001_025E'', FloatCol [Some 1, Some 2, Some 3]),
      (''B01001_044E'', FloatCol [Some 1, Some 2, Some 3]),
      (''B01001_045E'', FloatCol [Some 1, Some 2, Some 3]),
      (''B01001_046E'', FloatCol [Some 1, Some 2, Some 3]),
      (''B01001_047E'', FloatCol [Some 1, Some 2, Some 3]),
      (''B01001_048E'', FloatCol [Some 1, None, Some 3]),
      (''B01001_049E'', FloatCol [Some 1, Some 2, Some 3])]"

text \<open>The same table with one more column, named \<open>pop_80_plus\<close>.\<close>

definition example_acs_with_column :: data_frame where
  "example_acs_with_column = example_acs @ [(''pop_80_plus'', FloatCol [Some 0, Some 4, Some 7])]"

section \<open>Properties of the PurpleAir loops\<close>

lemma stats_iteration_append:
  "stats_iteration lk f air = air @ stats_iteration lk f []"
  by (simp add: stats_iteration_def Let_def split: sum.splits option.splits prod.splits)

lemma stats_loop_concat:
  "stats_loop lk fs air = air @ concat (map (\<lambda>f. stats_iteration lk f []) fs)"
proof (induction fs arbitrary: air)
  case Nil
  then show ?case by simp
next
  case (Cons f fs)
  show ?case
    using Cons.IH [of "stats_iteration lk f air"] stats_iteration_append [of lk f air]
    by simp
qed

lemma main_iteration_air:
  "air_data (main_iteration lk f st) = air_data st @ stats_iteration lk f []"
  by (simp add: main_iteration_def stats_iteration_def main_skip_def Let_def
      split: sum.splits option.splits prod.splits)

lemma main_loop_air:
  "air_data (main_loop lk fs st) = air_data st @ concat (map (\<lambda>f. stats_iteration lk f []) fs)"
  by (induction fs arbitrary: st) (simp_all add: main_iteration_air)

lemma analysis_iteration_air:
  "a_air_data (analysis_iteration lk f st) = a_air_data st @ stats_iteration lk f []"
  by (simp add: analysis_iteration_def stats_iteration_def analysis_skip_def Let_def
      PM25_CORRECTION_SLOPE_def PM25_CORRECTION_INTERCEPT_def PM25_OUTLIER_THRESHOLD_def
      split: sum.splits option.splits prod.splits)

lemma analysis_loop_air:
  "a_air_data (analysis_loop lk fs st) =
     a_air_data st @ concat (map (\<lambda>f. stats_iteration lk f []) fs)"
  by (induction fs arbitrary: st) (simp_all add: analysis_iteration_air)

lemma stats_iteration_cases:
  "stats_iteration lk f [] = [] \<or>
   (\<exists>sid la lo df col raw. sensor_id_of (filename f) = Inr sid \<and> lk sid = Some (la, lo) \<and>
      content f = Frame df \<and> map_of df ''pm2.5_cf_1'' = Some col \<and>
      series_mean col = Inr (Some raw) \<and> 0.778 * raw + 2.65 \<le> 500 \<and>
      stats_iteration lk f [] =
        [\<lparr>lat = la, lon = lo, pm25 = 0.778 * raw + 2.65, sensor_id = sid\<rparr>])"
  by (auto simp add: stats_iteration_def read_csv_def Let_def
      split: sum.splits option.splits prod.splits csv_content.splits)

lemma kept_row_origin:
  assumes "r \<in> set (concat (map (\<lambda>f. stats_iteration lk f []) fs))"
  shows "\<exists>f \<in> set fs. \<exists>df col raw.
           sensor_id_of (filename f) = Inr (sensor_id r) \<and>
           lk (sensor_id r) = Some (lat r, lon r) \<and>
           content f = Frame df \<and> map_of df ''pm2.5_cf_1'' = Some col \<and>
           series_mean col = Inr (Some raw) \<and>
           pm25 r = 0.778 * raw + 2.65 \<and> pm25 r \<le> 500"
proof -
  from assms obtain f where f: "f \<in> set fs" and r: "r \<in> set (stats_iteration lk f [])"
    by auto
  from r have "stats_iteration lk f [] \<noteq> []" by auto
  with stats_iteration_cases [of lk f] obtain sid la lo df col raw where
    c: "sensor_id_of (filename f) = Inr sid" "lk sid = Some (la, lo)"
       "content f = Frame df" "map_of df ''pm2.5_cf_1'' = Some col"
       "series_mean col = Inr (Some raw)" "0.778 * raw + 2.65 \<le> 500"
    and s: "stats_iteration lk f [] =
        [\<lparr>lat = la, lon = lo, pm25 = 0.778 * raw + 2.65, sensor_id = sid\<rparr>]"
    by blast
  from r s have "r = \<lparr>lat = la, lon = lo, pm25 = 0.778 * raw + 2.65, sensor_id = sid\<rparr>"
    by simp
  then have "sensor_id r = sid" "lat r = la" "lon r = lo" "pm25 r = 0.778 * raw + 2.65"
    by simp_all
  with c f show ?thesis by auto
qed

lemma analysis_counters:
  "a_processed (analysis_loop lk fs st) + a_skipped (analysis_loop lk fs st) +
     a_outliers (analysis_loop lk fs st) =
   a_processed st + a_skipped st + a_outliers st + length fs"
proof (induction fs arbitrary: st)
  case Nil
  then show ?case by simp
next
  case (Cons f fs)
  have "a_processed (analysis_iteration lk f st) + a_skipped (analysis_iteration lk f st) +
      a_outliers (analysis_iteration lk f st) = a_processed st + a_skipped st + a_outliers st + 1"
    by (simp add: analysis_iteration_def analysis_skip_def Let_def
        split: sum.splits option.splits prod.splits)
  with Cons.IH [of "analysis_iteration lk f st"] show ?case by simp
qed

lemma analysis_processed:
  "a_processed (analysis_loop lk fs st) + length (a_air_data st) =
   a_processed st + length (a_air_data (analysis_loop lk fs st))"
proof (induction fs arbitrary: st)
  case Nil
  then show ?case by simp
next
  case (Cons f fs)
  have "a_processed (analysis_iteration lk f st) + length (a_air_data st) =
      a_processed st + length (a_air_data (analysis_iteration lk f st))"
    by (simp add: analysis_iteration_def analysis_skip_def Let_def
        split: sum.splits option.splits prod.splits)
  with Cons.IH [of "analysis_iteration lk f st"] show ?case by simp
qed

lemma analysis_single:
  "a_air_data (process_purpleair_data [f] lk) = stats_iteration lk f []"
  by (simp add: process_purpleair_data_def analysis_iteration_air)

lemma stats_iteration_empty_iff:
  "stats_iteration lk f [] = [] \<longleftrightarrow>
     (\<exists>e. sensor_id_of (filename f) = Inl e) \<or>
     (\<exists>sid. sensor_id_of (filename f) = Inr sid \<and> lk sid = None) \<or>
     (\<exists>e. content f = Unreadable e) \<or>
     (\<exists>df. content f = Frame df \<and> map_of df ''pm2.5_cf_1'' = None) \<or>
     (\<exists>df col e. content f = Frame df \<and> map_of df ''pm2.5_cf_1'' = Some col \<and>
        series_mean col = Inl e) \<or>
     (\<exists>df col. content f = Frame df \<and> map_of df ''pm2.5_cf_1'' = Some col \<and>
        series_mean col = Inr None) \<or>
     (\<exists>df col raw. content f = Frame df \<and> map_of df ''pm2.5_cf_1'' = Some col \<and>
        series_mean col = Inr (Some raw) \<and>
        PM25_CORRECTION_SLOPE * raw + PM25_CORRECTION_INTERCEPT > PM25_OUTLIER_THRESHOLD)"
  by (auto simp add: stats_iteration_def read_csv_def Let_def
      PM25_CORRECTION_SLOPE_def PM25_CORRECTION_INTERCEPT_def PM25_OUTLIER_THRESHOLD_def
      split: sum.splits option.splits prod.splits csv_content.splits if_splits)

lemma eval_ids:
  "sensor_id_of ''100865 2026-01-01 2026-01-25 60-Minute Average.csv'' = Inr 100865"
  "sensor_id_of ''notes.csv'' = Inl ValueError"
  "sensor_id_of ''100867 2026-01-01 2026-01-25 60-Minute Average.csv'' = Inr 100867"
  "sensor_id_of ''555 2026-01-01 2026-01-25 60-Minute Average.csv'' = Inr 555"
  "sensor_id_of ''100867 2025-12-01 2025-12-31 60-Minute Average.csv'' = Inr 100867"
  "sensor_id_of ''100865 2025-12-01 2025-12-31 60-Minute Average.csv'' = Inr 100865"
  by (simp_all add: sensor_id_of_def py_split_def is_space_def py_int_def is_digit_def
      digit_val_def)

lemma eval_means:
  "mean_skipna [Some 30, None, Some 50] = Some 40"
  "series_mean (FloatCol [Some 30, None, Some 50]) = Inr (Some 40)"
  "series_mean (FloatCol [Some 10]) = Inr (Some 10)"
  "series_mean (FloatCol [Some 20]) = Inr (Some 20)"
  "series_mean (FloatCol [Some 700, Some 900]) = Inr (Some 800)"
  "series_mean (FloatCol [Some 8]) = Inr (Some 8)"
  "series_mean (TextCol [''12.5'', ''error'', ''13.0'']) = Inl TypeError"
  by (simp_all add: series_mean_def mean_skipna_def List.map_filter_def)

lemma eval_rows:
  "stats_iteration example_lookup example_file [] =
     [\<lparr>lat = 40.76, lon = -111.89, pm25 = 33.77, sensor_id = 100865\<rparr>]"
  "stats_iteration example_lookup notes_file [] = []"
  "stats_iteration example_lookup faulty_file [] = []"
  "stats_iteration example_lookup unknown_file [] = []"
  "stats_iteration example_lookup text_file [] = []"
  "stats_iteration example_lookup december_file [] =
     [\<lparr>lat = 40.76, lon = -111.89, pm25 = 10.43, sensor_id = 100865\<rparr>]"
  "stats_iteration example_lookup january_file [] =
     [\<lparr>lat = 40.76, lon = -111.89, pm25 = 18.21, sensor_id = 100865\<rparr>]"
  by (simp_all add: stats_iteration_def example_file_def notes_file_def faulty_file_def
      unknown_file_def text_file_def december_file_def january_file_def eval_ids eval_means
      read_csv_def example_lookup_def Let_def)

lemma eval_iterations:
  "analysis_iteration example_lookup example_file st =
     st\<lparr>a_air_data := a_air_data st @
           [\<lparr>lat = 40.76, lon = -111.89, pm25 = 33.77, sensor_id = 100865\<rparr>],
        a_processed := a_processed st + 1\<rparr>"
  "analysis_iteration example_lookup notes_file st = analysis_skip st"
  "analysis_iteration example_lookup faulty_file st = st\<lparr>a_outliers := a_outliers st + 1\<rparr>"
  "analysis_iteration example_lookup unknown_file st = analysis_skip st"
  "analysis_iteration example_lookup text_file st = analysis_skip st"
  by (simp_all add: analysis_iteration_def example_file_def notes_file_def faulty_file_def
      unknown_file_def text_file_def eval_ids eval_means read_csv_def example_lookup_def Let_def
      PM25_CORRECTION_SLOPE_def PM25_CORRECTION_INTERCEPT_def PM25_OUTLIER_THRESHOLD_def)

lemma eval_run:
  "process_purpleair_data [example_file, notes_file, faulty_file, unknown_file, text_file]
     example_lookup =
     \<lparr>a_air_data = [\<lparr>lat = 40.76, lon = -111.89, pm25 = 33.77, sensor_id = 100865\<rparr>],
      a_processed = 1, a_skipped = 3, a_outliers = 1\<rparr>"
  by (simp add: process_purpleair_data_def eval_iterations analysis_skip_def)

lemma eval_run_main:
  "air_data (process_purpleair_data_main
       [example_file, notes_file, faulty_file, unknown_file, text_file] example_lookup) =
     [\<lparr>lat = 40.76, lon = -111.89, pm25 = 33.77, sensor_id = 100865\<rparr>]"
  by (simp only: process_purpleair_data_main_def main_loop_air) (simp add: eval_rows)

text \<open>
  C1. Every row that \<open>process_purpleair_data\<close> keeps (both in main.py and in
  purpleair_analysis.py) is the row of one file of the directory: the file's name gives
  the row's sensor id, the lookup gives the row's coordinates for that id, the file's
  \<open>pm2.5_cf_1\<close> column has a mean, the row's \<open>pm25\<close> is 0.778 times that mean plus
  2.65, and it is at most 500.
\<close>

theorem kept_rows_corrected_and_bounded:
  "(\<forall>r \<in> set (air_data (process_purpleair_data_main files lk)).
      \<exists>f \<in> set files. \<exists>df col raw.
        sensor_id_of (filename f) = Inr (sensor_id r) \<and>
        lk (sensor_id r) = Some (lat r, lon r) \<and>
        content f = Frame df \<and> map_of df ''pm2.5_cf_1'' = Some col \<and>
        series_mean col = Inr (Some raw) \<and>
        pm25 r = 0.778 * raw + 2.65 \<and> pm25 r \<le> 500) \<and>
   (\<forall>r \<in> set (a_air_data (process_purpleair_data files lk)).
      \<exists>f \<in> set files. \<exists>df col raw.
        sensor_id_of (filename f) = Inr (sensor_id r) \<and>
        lk (sensor_id r) = Some (lat r, lon r) \<and>
        content f = Frame df \<and> map_of df ''pm2.5_cf_1'' = Some col \<and>
        series_mean col = Inr (Some raw) \<and>
        pm25 r = 0.778 * raw + 2.65 \<and> pm25 r \<le> 500)"
proof -
  have m: "air_data (process_purpleair_data_main files lk) =
      concat (map (\<lambda>f. stats_iteration lk f []) files)"
    by (simp add: process_purpleair_data_main_def main_loop_air)
  have a: "a_air_data (process_purpleair_data files lk) =
      concat (map (\<lambda>f. stats_iteration lk f []) files)"
    by (simp add: process_purpleair_data_def analysis_loop_air)
  show ?thesis
    unfolding m a
  proof (rule conjI)
    show "\<forall>r \<in> set (concat (map (\<lambda>f. stats_iteration lk f []) files)).
      \<exists>f \<in> set files. \<exists>df col raw.
        sensor_id_of (filename f) = Inr (sensor_id r) \<and>
        lk (sensor_id r) = Some (lat r, lon r) \<and>
        content f = Frame df \<and> map_of df ''pm2.5_cf_1'' = Some col \<and>
        series_mean col = Inr (Some raw) \<and>
        pm25 r = 0.778 * raw + 2.65 \<and> pm25 r \<le> 500"
      by (rule ballI) (rule kept_row_origin)
    then show "\<forall>r \<in> set (concat (map (\<lambda>f. stats_iteration lk f []) files)).
      \<exists>f \<in> set files. \<exists>df col raw.
        sensor_id_of (filename f) = Inr (sensor_id r) \<and>
        lk (sensor_id r) = Some (lat r, lon r) \<and>
        content f = Frame df \<and> map_of df ''pm2.5_cf_1'' = Some col \<and>
        series_mean col = Inr (Some raw) \<and>
        pm25 r = 0.778 * raw + 2.65 \<and> pm25 r \<le> 500" .
  qed
qed

theorem kept_rows_corrected_and_bounded_witness:
  "\<lparr>lat = 40.76, lon = -111.89, pm25 = 33.77, sensor_id = 100865\<rparr>
     \<in> set (air_data (process_purpleair_data_main
              [example_file, notes_file, faulty_file, unknown_file, text_file]
              example_lookup)) \<and>
   \<lparr>lat = 40.76, lon = -111.89, pm25 = 33.77, sensor_id = 100865\<rparr>
     \<in> set (a_air_data (process_purpleair_data
              [example_file, notes_file, faulty_file, unknown_file, text_file]
              example_lookup)) \<and>
   (\<exists>f \<in> set [example_file, notes_file, faulty_file, unknown_file, text_file].
      \<exists>df col raw. sensor_id_of (filename f) = Inr 100865 \<and>
        example_lookup 100865 = Some (40.76, -111.89) \<and>
        content f = Frame df \<and> map_of df ''pm2.5_cf_1'' = Some col \<and>
        series_mean col = Inr (Some raw) \<and> (33.77 :: real) = 0.778 * raw + 2.65 \<and>
        (33.77 :: real) \<le> 500)"
proof -
  let ?r = "\<lparr>lat = 40.76, lon = -111.89, pm25 = 33.77, sensor_id = 100865\<rparr>"
  let ?fs = "[example_file, notes_file, faulty_file, unknown_file, text_file]"
  have mem_main: "?r \<in> set (air_data (process_purpleair_data_main ?fs example_lookup))"
    by (simp add: eval_run_main)
  have mem: "?r \<in> set (a_air_data (process_purpleair_data ?fs example_lookup))"
    by (simp add: eval_run)
  note all = kept_rows_corrected_and_bounded [of ?fs example_lookup]
  from bspec [OF conjunct1 [OF all] mem_main] bspec [OF conjunct2 [OF all] mem]
    mem_main mem
  show ?thesis by simp
qed

text \<open>
  C4, as the code has it. Each file is handled on its own and the loop goes on after a
  rejected file: the kept rows are the rows of the single files, in order, and every
  file is counted once, as processed, skipped or outlier. A file is rejected exactly
  when an exception is raised while it is handled (its name does not begin with an
  integer, \<open>read_csv\<close> fails, or the mean of a \<open>pm2.5_cf_1\<close> column with text in it
  cannot be computed), or its sensor id is not in the lookup, or it has no
  \<open>pm2.5_cf_1\<close> column, or the column's mean is NaN, or the corrected value is above
  500.
\<close>

theorem rejection_is_local_and_counted:
  "a_air_data (process_purpleair_data fs lk) =
     concat (map (\<lambda>f. a_air_data (process_purpleair_data [f] lk)) fs) \<and>
   a_processed (process_purpleair_data fs lk) + a_skipped (process_purpleair_data fs lk) +
     a_outliers (process_purpleair_data fs lk) = length fs \<and>
   a_processed (process_purpleair_data fs lk) = length (a_air_data (process_purpleair_data fs lk)) \<and>
   (a_air_data (process_purpleair_data [f] lk) = [] \<longleftrightarrow>
     (\<exists>e. sensor_id_of (filename f) = Inl e) \<or>
     (\<exists>sid. sensor_id_of (filename f) = Inr sid \<and> lk sid = None) \<or>
     (\<exists>e. content f = Unreadable e) \<or>
     (\<exists>df. content f = Frame df \<and> map_of df ''pm2.5_cf_1'' = None) \<or>
     (\<exists>df col e. content f = Frame df \<and> map_of df ''pm2.5_cf_1'' = Some col \<and>
        series_mean col = Inl e) \<or>
     (\<exists>df col. content f = Frame df \<and> map_of df ''pm2.5_cf_1'' = Some col \<and>
        series_mean col = Inr None) \<or>
     (\<exists>df col raw. content f = Frame df \<and> map_of df ''pm2.5_cf_1'' = Some col \<and>
        series_mean col = Inr (Some raw) \<and>
        PM25_CORRECTION_SLOPE * raw + PM25_CORRECTION_INTERCEPT > PM25_OUTLIER_THRESHOLD))"
proof -
  have "a_air_data (process_purpleair_data fs lk) =
      concat (map (\<lambda>f. a_air_data (process_purpleair_data [f] lk)) fs)"
    by (simp add: analysis_single) (simp add: process_purpleair_data_def analysis_loop_air)
  moreover have "a_processed (process_purpleair_data fs lk) +
      a_skipped (process_purpleair_data fs lk) + a_outliers (process_purpleair_data fs lk) =
      length fs"
    using analysis_counters
      [of lk fs "\<lparr>a_air_data = [], a_processed = 0, a_skipped = 0, a_outliers = 0\<rparr>"]
    by (simp add: process_purpleair_data_def)
  moreover have "a_processed (process_purpleair_data fs lk) =
      length (a_air_data (process_purpleair_data fs lk))"
    using analysis_processed
      [of lk fs "\<lparr>a_air_data = [], a_processed = 0, a_skipped = 0, a_outliers = 0\<rparr>"]
    by (simp add: process_purpleair_data_def)
  ultimately show ?thesis
    using stats_iteration_empty_iff [of lk f] by (simp only: analysis_single)
qed

theorem rejection_is_local_and_counted_witness:
  "a_air_data (process_purpleair_data
       [example_file, notes_file, faulty_file, unknown_file, text_file] example_lookup) =
     a_air_data (process_purpleair_data [example_file] example_lookup) \<and>
   a_processed (process_purpleair_data
       [example_file, notes_file, faulty_file, unknown_file, text_file] example_lookup) = 1 \<and>
   a_skipped (process_purpleair_data
       [example_file, notes_file, faulty_file, unknown_file, text_file] example_lookup) = 3 \<and>
   a_outliers (process_purpleair_data
       [example_file, notes_file, faulty_file, unknown_file, text_file] example_lookup) = 1 \<and>
   a_air_data (process_purpleair_data [text_file] example_lookup) = [] \<and>
   (\<exists>df col e. content text_file = Frame df \<and> map_of df ''pm2.5_cf_1'' = Some col \<and>
      series_mean col = Inl e)"
proof -
  have "\<exists>df col e. content text_file = Frame df \<and> map_of df ''pm2.5_cf_1'' = Some col \<and>
      series_mean col = Inl e"
    by (simp add: text_file_def eval_means)
  then show ?thesis
    using rejection_is_local_and_counted
      [of "[example_file, notes_file, faulty_file, unknown_file, text_file]" example_lookup
        text_file]
    by (simp add: eval_run analysis_single eval_rows)
qed

text \<open>
  The four causes of the claim are not all: \<open>notes.csv\<close> has no sensor id to miss from
  the lookup, has the column, a numeric mean and a corrected value below 500, and is
  rejected.
\<close>

theorem rejected_without_listed_cause:
  "a_air_data (process_purpleair_data [notes_file] example_lookup) = [] \<and>
   a_skipped (process_purpleair_data [notes_file] example_lookup) = 1 \<and>
   sensor_id_of (filename notes_file) = Inl ValueError \<and>
   \<not> (\<exists>sid. sensor_id_of (filename notes_file) = Inr sid \<and> example_lookup sid = None) \<and>
   content notes_file = Frame [(''pm2.5_cf_1'', FloatCol [Some 10])] \<and>
   map_of [(''pm2.5_cf_1'', FloatCol [Some 10])] ''pm2.5_cf_1'' = Some (FloatCol [Some 10]) \<and>
   series_mean (FloatCol [Some 10]) = Inr (Some 10) \<and>
   \<not> (0.778 * 10 + 2.65 > (500 :: real))"
  by (simp add: process_purpleair_data_def eval_iterations analysis_skip_def eval_means)
    (simp add: notes_file_def eval_ids)

text \<open>
  C8. The worked example: a sensor whose raw mean is 40 gets 33.77, is kept, and falls
  in the band Moderate.
\<close>

theorem worked_example_moderate:
  "mean_skipna [Some 30, None, Some 50] = Some 40 \<and>
   (0.778 * 40 + 2.65 :: real) = 33.77 \<and>
   air_data (process_purpleair_data_main [example_file] example_lookup) =
     [\<lparr>lat = 40.76, lon = -111.89, pm25 = 33.77, sensor_id = 100865\<rparr>] \<and>
   get_aqi_category 33.77 = ''Moderate'' \<and>
   get_pm25_color 33.77 = ''orange'' \<and>
   marker_status 33.77 = ''Moderate''"
  by (simp add: eval_means process_purpleair_data_main_def main_iteration_air eval_rows
      get_aqi_category_def get_pm25_color_def marker_status_def)

text \<open>
  C10. The three copies of the sensor loop keep the same rows, in the same order.
\<close>

theorem three_loops_keep_the_same_rows:
  "air_data (process_purpleair_data_main fs lk) = a_air_data (process_purpleair_data fs lk) \<and>
   a_air_data (process_purpleair_data fs lk) = stats_air_data fs lk"
  by (simp add: process_purpleair_data_main_def process_purpleair_data_def stats_air_data_def
      main_loop_air analysis_loop_air stats_loop_concat)

section \<open>Properties of the AQI bands\<close>

text \<open>
  C3, as the code has it. The three bands have the thresholds 12 and 35 in the static
  analysis plots (\<open>get_aqi_category\<close>), in the marker colour (\<open>get_pm25_color\<close>) and
  in the marker status; the marker status names the top band
  \<open>Unhealthy for Sensitive Groups\<close>, not \<open>Unhealthy\<close>. The legend is fixed text:
  the three colours and band names in order, with the ranges written \<open><12\<close>,
  \<open>12-35\<close> and \<open>>35\<close>.
\<close>

theorem aqi_bands:
  "(v < 12 \<longrightarrow> get_aqi_category v = ''Good'' \<and> get_pm25_color v = ''green'' \<and>
      marker_status v = ''Good'') \<and>
   (12 \<le> v \<and> v < 35 \<longrightarrow> get_aqi_category v = ''Moderate'' \<and>
      get_pm25_color v = ''orange'' \<and> marker_status v = ''Moderate'') \<and>
   (35 \<le> v \<longrightarrow> get_aqi_category v = ''Unhealthy'' \<and> get_pm25_color v = ''red'' \<and>
      marker_status v = ''Unhealthy for Sensitive Groups'') \<and>
   map (\<lambda>(c, n, r). (c, n)) legend_html =
     [(get_pm25_color 0, get_aqi_category 0), (get_pm25_color 12, get_aqi_category 12),
      (get_pm25_color 35, get_aqi_category 35)] \<and>
   map (\<lambda>(c, n, r). r) legend_html = [''&lt;12'', ''12-35'', ''&gt;35'']"
  by (simp add: get_aqi_category_def get_pm25_color_def marker_status_def legend_html_def)

theorem aqi_bands_witness:
  "(5 :: real) < 12 \<and> get_aqi_category 5 = ''Good'' \<and> get_pm25_color 5 = ''green'' \<and>
   marker_status 5 = ''Good'' \<and>
   (12 :: real) \<le> 20 \<and> (20 :: real) < 35 \<and> get_aqi_category 20 = ''Moderate'' \<and>
   get_pm25_color 20 = ''orange'' \<and> marker_status 20 = ''Moderate'' \<and>
   (35 :: real) \<le> 35 \<and> get_aqi_category 35 = ''Unhealthy'' \<and> get_pm25_color 35 = ''red'' \<and>
   marker_status 35 = ''Unhealthy for Sensitive Groups''"
  using aqi_bands [of 5] aqi_bands [of 20] aqi_bands [of 35] by simp

text \<open>
  The classification is not the same function everywhere: at 40 the static plots say
  \<open>Unhealthy\<close> and the marker status says \<open>Unhealthy for Sensitive Groups\<close>.
\<close>

theorem marker_status_differs_from_category:
  "get_aqi_category 40 = ''Unhealthy'' \<and>
   marker_status 40 = ''Unhealthy for Sensitive Groups'' \<and>
   marker_status 40 \<noteq> get_aqi_category 40"
  by (simp add: get_aqi_category_def marker_status_def)

section \<open>Properties of the spatial interpolation\<close>












lemma nth_meshgrid:
  "i < length gy \<Longrightarrow> j < length gx \<Longrightarrow> meshgrid gx gy ! i ! j = (gx ! j, gy ! i)"
  by (simp add: meshgrid_def)









section \<open>Properties of the geo-census merge\<close>

lemma merge_body_kept:
  assumes "r \<in> set (merge_body key pop area gdf census_df)"
  shows "fst r \<in> set gdf \<and> snd r \<in> set census_df \<and> key (snd r) = GEOID (fst r) \<and>
    pop (snd r) > 0 \<and>
    \<not> (exceeds (area (geometry (fst r)))
          (quantile_095 (map (\<lambda>r. area (geometry (fst r)))
             (filter (\<lambda>r. pop (snd r) > 0) (inner_merge key gdf census_df)))) \<and>
        pop (snd r) < 10)"
proof -
  let ?m = "filter (\<lambda>r. pop (snd r) > 0) (inner_merge key gdf census_df)"
  let ?q = "quantile_095 (map (\<lambda>r. area (geometry (fst r))) ?m)"
  let ?out = "\<lambda>r. pop (snd r) < 10 \<and> exceeds (area (geometry (fst r))) ?q"
  have res: "merge_body key pop area gdf census_df = filter (\<lambda>r. \<not> ?out r) ?m"
  proof (cases "filter ?out ?m = []")
    case True
    then have "\<forall>r \<in> set ?m. \<not> ?out r"
      by (simp only: filter_empty_conv)
    then have "filter (\<lambda>r. \<not> ?out r) ?m = ?m"
      by (simp only: filter_id_conv)
    with True show ?thesis
      by (simp add: merge_body_def Let_def)
  next
    case False
    then show ?thesis
      by (simp add: merge_body_def Let_def)
  qed
  from assms have a: "r \<in> set ?m" and b: "\<not> ?out r"
    by (simp_all add: res)
  from a have "r \<in> set (inner_merge key gdf census_df)" and p: "pop (snd r) > 0"
    by simp_all
  then have "fst r \<in> set gdf \<and> snd r \<in> set census_df \<and> key (snd r) = GEOID (fst r)"
    by (auto simp add: inner_merge_def)
  with p b show ?thesis by blast
qed

lemma merge_geo_and_census_kept:
  "r \<in> set (merge_geo_and_census area gdf census_df) \<Longrightarrow>
     fst r \<in> set gdf \<and> snd r \<in> set census_df \<and> c_GEOID (snd r) = GEOID (fst r) \<and>
     pop_80_plus (snd r) > 0 \<and>
     \<not> (exceeds (area (geometry (fst r)))
           (quantile_095 (map (\<lambda>r. area (geometry (fst r)))
              (filter (\<lambda>r. pop_80_plus (snd r) > 0) (inner_merge c_GEOID gdf census_df)))) \<and>
         pop_80_plus (snd r) < 10)"
  unfolding merge_geo_and_census_def by (rule merge_body_kept)

lemma merge_geo_and_census_epa_kept:
  "r \<in> set (merge_geo_and_census_epa area gdf census_df) \<Longrightarrow>
     fst r \<in> set gdf \<and> snd r \<in> set census_df \<and> e_GEOID (snd r) = GEOID (fst r) \<and>
     pop_65_plus (snd r) > 0 \<and>
     \<not> (exceeds (area (geometry (fst r)))
           (quantile_095 (map (\<lambda>r. area (geometry (fst r)))
              (filter (\<lambda>r. pop_65_plus (snd r) > 0) (inner_merge e_GEOID gdf census_df)))) \<and>
         pop_65_plus (snd r) < 10)"
  unfolding merge_geo_and_census_epa_def by (rule merge_body_kept)

text \<open>
  C2, as the code has it. Every tract in the output of \<open>merge_geo_and_census\<close> (either
  script) joins a row of the shapefile and a row of the census table with the same GEOID,
  has a positive population in the band, and is not both below 10 in population and
  above the 95th percentile in area, where the percentile is taken once, over the joined
  tracts of positive population, before the outliers are dropped.
\<close>

theorem merged_tracts_joined_inhabited_not_outliers:
  "(\<forall>r \<in> set (merge_geo_and_census area gdf census_df).
      fst r \<in> set gdf \<and> snd r \<in> set census_df \<and> c_GEOID (snd r) = GEOID (fst r) \<and>
      pop_80_plus (snd r) > 0 \<and>
      \<not> (exceeds (area (geometry (fst r)))
            (quantile_095 (map (\<lambda>r. area (geometry (fst r)))
               (filter (\<lambda>r. pop_80_plus (snd r) > 0) (inner_merge c_GEOID gdf census_df)))) \<and>
          pop_80_plus (snd r) < 10)) \<and>
   (\<forall>r \<in> set (merge_geo_and_census_epa area gdf epa_census_df).
      fst r \<in> set gdf \<and> snd r \<in> set epa_census_df \<and> e_GEOID (snd r) = GEOID (fst r) \<and>
      pop_65_plus (snd r) > 0 \<and>
      \<not> (exceeds (area (geometry (fst r)))
            (quantile_095 (map (\<lambda>r. area (geometry (fst r)))
               (filter (\<lambda>r. pop_65_plus (snd r) > 0) (inner_merge e_GEOID gdf epa_census_df)))) \<and>
          pop_65_plus (snd r) < 10))"
proof (rule conjI)
  show "\<forall>r \<in> set (merge_geo_and_census area gdf census_df).
      fst r \<in> set gdf \<and> snd r \<in> set census_df \<and> c_GEOID (snd r) = GEOID (fst r) \<and>
      pop_80_plus (snd r) > 0 \<and>
      \<not> (exceeds (area (geometry (fst r)))
            (quantile_095 (map (\<lambda>r. area (geometry (fst r)))
               (filter (\<lambda>r. pop_80_plus (snd r) > 0) (inner_merge c_GEOID gdf census_df)))) \<and>
          pop_80_plus (snd r) < 10)"
    by (rule ballI) (rule merge_geo_and_census_kept)
  show "\<forall>r \<in> set (merge_geo_and_census_epa area gdf epa_census_df).
      fst r \<in> set gdf \<and> snd r \<in> set epa_census_df \<and> e_GEOID (snd r) = GEOID (fst r) \<and>
      pop_65_plus (snd r) > 0 \<and>
      \<not> (exceeds (area (geometry (fst r)))
            (quantile_095 (map (\<lambda>r. area (geometry (fst r)))
               (filter (\<lambda>r. pop_65_plus (snd r) > 0) (inner_merge e_GEOID gdf epa_census_df)))) \<and>
          pop_65_plus (snd r) < 10)"
    by (rule ballI) (rule merge_geo_and_census_epa_kept)
qed

lemma eval_join:
  "inner_merge c_GEOID example_gdf example_census =
     [(\<lparr>GEOID = ''49035100100'', NAMELSAD = ''Census Tract 1001'', geometry = 1\<rparr>,
       \<lparr>c_GEOID = ''49035100100'', c_NAME = ''Tract 1001'', pop_80_plus = 5,
        pop_80_plus_pct = 2\<rparr>),
      (\<lparr>GEOID = ''49035100200'', NAMELSAD = ''Census Tract 1002'', geometry = 2\<rparr>,
       \<lparr>c_GEOID = ''49035100200'', c_NAME = ''Tract 1002'', pop_80_plus = 5,
        pop_80_plus_pct = 2\<rparr>),
      (\<lparr>GEOID = ''49035980000'', NAMELSAD = ''Census Tract 9800'', geometry = 3\<rparr>,
       \<lparr>c_GEOID = ''49035980000'', c_NAME = ''Tract 9800'', pop_80_plus = 5,
        pop_80_plus_pct = 1\<rparr>),
      (\<lparr>GEOID = ''49035110100'', NAMELSAD = ''Census Tract 1101'', geometry = 1.5\<rparr>,
       \<lparr>c_GEOID = ''49035110100'', c_NAME = ''Tract 1101'', pop_80_plus = 0,
        pop_80_plus_pct = 0\<rparr>)]"
  by (simp add: inner_merge_def example_gdf_def example_census_def)

lemma eval_join_epa:
  "inner_merge e_GEOID example_gdf example_epa_census =
     [(\<lparr>GEOID = ''49035100100'', NAMELSAD = ''Census Tract 1001'', geometry = 1\<rparr>,
       \<lparr>e_GEOID = ''49035100100'', e_NAME = ''Tract 1001'', pop_65_plus = 5,
        pop_65_plus_pct = 2, pop_85_plus = 1, pop_85_plus_pct = 1\<rparr>),
      (\<lparr>GEOID = ''49035100200'', NAMELSAD = ''Census Tract 1002'', geometry = 2\<rparr>,
       \<lparr>e_GEOID = ''49035100200'', e_NAME = ''Tract 1002'', pop_65_plus = 5,
        pop_65_plus_pct = 2, pop_85_plus = 1, pop_85_plus_pct = 1\<rparr>),
      (\<lparr>GEOID = ''49035980000'', NAMELSAD = ''Census Tract 9800'', geometry = 3\<rparr>,
       \<lparr>e_GEOID = ''49035980000'', e_NAME = ''Tract 9800'', pop_65_plus = 5,
        pop_65_plus_pct = 1, pop_85_plus = 0, pop_85_plus_pct = 0\<rparr>),
      (\<lparr>GEOID = ''49035110100'', NAMELSAD = ''Census Tract 1101'', geometry = 1.5\<rparr>,
       \<lparr>e_GEOID = ''49035110100'', e_NAME = ''Tract 1101'', pop_65_plus = 0,
        pop_65_plus_pct = 0, pop_85_plus = 0, pop_85_plus_pct = 0\<rparr>)]"
  by (simp add: inner_merge_def example_gdf_def example_epa_census_def)

lemma eval_quantile:
  "quantile_095 [1, 2, 3] = Some 2.9"
  "quantile_095 [1, 2] = Some 1.95"
  by (simp_all add: quantile_095_def)

lemma eval_merge:
  "merge_geo_and_census id example_gdf example_census =
     [(\<lparr>GEOID = ''49035100100'', NAMELSAD = ''Census Tract 1001'', geometry = 1\<rparr>,
       \<lparr>c_GEOID = ''49035100100'', c_NAME = ''Tract 1001'', pop_80_plus = 5,
        pop_80_plus_pct = 2\<rparr>),
      (\<lparr>GEOID = ''49035100200'', NAMELSAD = ''Census Tract 1002'', geometry = 2\<rparr>,
       \<lparr>c_GEOID = ''49035100200'', c_NAME = ''Tract 1002'', pop_80_plus = 5,
        pop_80_plus_pct = 2\<rparr>)]"
  by (simp add: merge_geo_and_census_def merge_body_def eval_join eval_quantile exceeds_def
      Let_def)

lemma eval_merge_epa:
  "merge_geo_and_census_epa id example_gdf example_epa_census =
     [(\<lparr>GEOID = ''49035100100'', NAMELSAD = ''Census Tract 1001'', geometry = 1\<rparr>,
       \<lparr>e_GEOID = ''49035100100'', e_NAME = ''Tract 1001'', pop_65_plus = 5,
        pop_65_plus_pct = 2, pop_85_plus = 1, pop_85_plus_pct = 1\<rparr>),
      (\<lparr>GEOID = ''49035100200'', NAMELSAD = ''Census Tract 1002'', geometry = 2\<rparr>,
       \<lparr>e_GEOID = ''49035100200'', e_NAME = ''Tract 1002'', pop_65_plus = 5,
        pop_65_plus_pct = 2, pop_85_plus = 1, pop_85_plus_pct = 1\<rparr>)]"
  by (simp add: merge_geo_and_census_epa_def merge_body_def eval_join_epa eval_quantile
      exceeds_def Let_def)

theorem merged_tracts_joined_inhabited_not_outliers_witness:
  "(\<lparr>GEOID = ''49035100200'', NAMELSAD = ''Census Tract 1002'', geometry = 2\<rparr>,
    \<lparr>c_GEOID = ''49035100200'', c_NAME = ''Tract 1002'', pop_80_plus = 5,
     pop_80_plus_pct = 2\<rparr>)
     \<in> set (merge_geo_and_census id example_gdf example_census) \<and>
   (\<lparr>GEOID = ''49035100200'', NAMELSAD = ''Census Tract 1002'', geometry = 2\<rparr>,
    \<lparr>e_GEOID = ''49035100200'', e_NAME = ''Tract 1002'', pop_65_plus = 5,
     pop_65_plus_pct = 2, pop_85_plus = 1, pop_85_plus_pct = 1\<rparr>)
     \<in> set (merge_geo_and_census_epa id example_gdf example_epa_census) \<and>
   \<lparr>GEOID = ''49035100200'', NAMELSAD = ''Census Tract 1002'', geometry = 2\<rparr>
     \<in> set example_gdf \<and>
   \<lparr>c_GEOID = ''49035100200'', c_NAME = ''Tract 1002'', pop_80_plus = 5, pop_80_plus_pct = 2\<rparr>
     \<in> set example_census \<and>
   \<lparr>e_GEOID = ''49035100200'', e_NAME = ''Tract 1002'', pop_65_plus = 5,
     pop_65_plus_pct = 2, pop_85_plus = 1, pop_85_plus_pct = 1\<rparr>
     \<in> set example_epa_census \<and>
   (5 :: real) < 10 \<and>
   \<not> exceeds (2 :: real)
       (quantile_095 (map (\<lambda>r. id (geometry (fst r)))
          (filter (\<lambda>r. pop_80_plus (snd r) > 0)
             (inner_merge c_GEOID example_gdf example_census)))) \<and>
   \<not> exceeds (2 :: real)
       (quantile_095 (map (\<lambda>r. id (geometry (fst r)))
          (filter (\<lambda>r. pop_65_plus (snd r) > 0)
             (inner_merge e_GEOID example_gdf example_epa_census))))"
proof -
  let ?r = "(\<lparr>GEOID = ''49035100200'', NAMELSAD = ''Census Tract 1002'', geometry = 2 :: real\<rparr>,
    \<lparr>c_GEOID = ''49035100200'', c_NAME = ''Tract 1002'', pop_80_plus = 5,
     pop_80_plus_pct = 2\<rparr>)"
  let ?e = "(\<lparr>GEOID = ''49035100200'', NAMELSAD = ''Census Tract 1002'', geometry = 2 :: real\<rparr>,
    \<lparr>e_GEOID = ''49035100200'', e_NAME = ''Tract 1002'', pop_65_plus = 5,
     pop_65_plus_pct = 2, pop_85_plus = 1, pop_85_plus_pct = 1\<rparr>)"
  have mem: "?r \<in> set (merge_geo_and_census id example_gdf example_census)"
    by (simp add: eval_merge)
  have mem_epa: "?e \<in> set (merge_geo_and_census_epa id example_gdf example_epa_census)"
    by (simp add: eval_merge_epa)
  note all = merged_tracts_joined_inhabited_not_outliers
      [where area = id and gdf = example_gdf and census_df = example_census
        and epa_census_df = example_epa_census]
  from bspec [OF conjunct1 [OF all] mem] bspec [OF conjunct2 [OF all] mem_epa] mem mem_epa
  show ?thesis
    by simp
qed

text \<open>
  The percentile is not the one of the tracts kept: in the output below, tract 1002 has
  a population of 5 and an area of 2, above 1.95, the 95th percentile of the areas of
  the output.
\<close>

theorem outlier_percentile_is_not_of_the_output:
  "merge_geo_and_census id example_gdf example_census =
     [(\<lparr>GEOID = ''49035100100'', NAMELSAD = ''Census Tract 1001'', geometry = 1\<rparr>,
       \<lparr>c_GEOID = ''49035100100'', c_NAME = ''Tract 1001'', pop_80_plus = 5,
        pop_80_plus_pct = 2\<rparr>),
      (\<lparr>GEOID = ''49035100200'', NAMELSAD = ''Census Tract 1002'', geometry = 2\<rparr>,
       \<lparr>c_GEOID = ''49035100200'', c_NAME = ''Tract 1002'', pop_80_plus = 5,
        pop_80_plus_pct = 2\<rparr>)] \<and>
   quantile_095 (map (\<lambda>r. id (geometry (fst r)))
      (merge_geo_and_census id example_gdf example_census)) = Some 1.95 \<and>
   exceeds (2 :: real) (Some 1.95) \<and>
   (5 :: real) < 10"
  by (simp add: eval_merge eval_quantile exceeds_def)

section \<open>Properties of the EPA processing\<close>

lemma in_window_example:
  "filter in_window example_epa = [example_epa ! 0, example_epa ! 2]"
  "filter in_window example_epa_late = []"
  by (simp_all add: example_epa_def example_epa_late_def in_window_def date_le_def
      INVERSION_START_def INVERSION_END_def)

text \<open>
  C5. When no record falls in the inversion window, \<open>process_epa_data\<close> warns and uses
  all records; otherwise it uses the records of the window. The per-site aggregation
  runs on the records used.
\<close>

theorem epa_window_fallback:
  "((\<forall>r \<in> set df. \<not> in_window r) \<longrightarrow>
      df_filtered (process_epa_data df) = df \<and>
      epa_sites (process_epa_data df) = aggregate_sites df \<and>
      Warning_no_data \<in> set (messages (process_epa_data df))) \<and>
   ((\<exists>r \<in> set df. in_window r) \<longrightarrow>
      df_filtered (process_epa_data df) = filter in_window df \<and>
      epa_sites (process_epa_data df) = aggregate_sites (filter in_window df) \<and>
      Warning_no_data \<notin> set (messages (process_epa_data df)))"
proof (cases "filter in_window df = []")
  case True
  then have none: "\<forall>r \<in> set df. \<not> in_window r"
    by (simp add: filter_empty_conv)
  with True show ?thesis
    by (simp add: process_epa_data_def Let_def)
next
  case False
  then have some: "\<exists>r \<in> set df. in_window r"
    by (simp add: filter_empty_conv)
  with False show ?thesis
    by (auto simp add: process_epa_data_def Let_def)
qed

theorem epa_window_fallback_witness:
  "df_filtered (process_epa_data example_epa_late) = example_epa_late \<and>
   epa_sites (process_epa_data example_epa_late) = aggregate_sites example_epa_late \<and>
   Warning_no_data \<in> set (messages (process_epa_data example_epa_late)) \<and>
   in_window (example_epa ! 0) \<and>
   df_filtered (process_epa_data example_epa) = [example_epa ! 0, example_epa ! 2] \<and>
   epa_sites (process_epa_data example_epa) =
     aggregate_sites [example_epa ! 0, example_epa ! 2] \<and>
   Warning_no_data \<notin> set (messages (process_epa_data example_epa))"
proof -
  have late: "\<forall>r \<in> set example_epa_late. \<not> in_window r"
    using in_window_example(2) by (simp only: filter_empty_conv)
  have w: "in_window (example_epa ! 0)"
    by (simp add: example_epa_def in_window_def date_le_def INVERSION_START_def
        INVERSION_END_def)
  have "example_epa ! 0 \<in> set example_epa"
    by (simp add: example_epa_def)
  with w have some: "\<exists>r \<in> set example_epa. in_window r" by blast
  from epa_window_fallback [of example_epa_late] late
    epa_window_fallback [of example_epa] some w
  show ?thesis
    by (simp only: in_window_example) simp
qed

section \<open>Properties of the census statistics\<close>

lemma map_of_set_col:
  "map_of (set_col df n c) m = (if m = n then Some c else map_of df m)"
  by (induction df n c rule: set_col.induct) auto

lemma convert_columns_other:
  "convert_columns p cs df = Inr df' \<Longrightarrow> m \<notin> set cs \<Longrightarrow> map_of df' m = map_of df m"
proof (induction cs arbitrary: df)
  case Nil
  then show ?case by simp
next
  case (Cons c cs)
  from Cons.prems(1) obtain col where col: "get_col df c = Inr col"
    and rest: "convert_columns p cs (set_col df c (to_numeric_fillna p col)) = Inr df'"
    by (auto split: sum.splits)
  from Cons.prems(2) have "m \<noteq> c" and "m \<notin> set cs" by auto
  with Cons.IH [OF rest] show ?case
    by (simp add: map_of_set_col)
qed

lemma convert_columns_present:
  "\<forall>c \<in> set cs. map_of df c \<noteq> None \<Longrightarrow> \<exists>df'. convert_columns p cs df = Inr df'"
proof (induction cs arbitrary: df)
  case Nil
  then show ?case by simp
next
  case (Cons c cs)
  from Cons.prems obtain col where col: "map_of df c = Some col" by auto
  have "\<forall>d \<in> set cs. map_of (set_col df c (to_numeric_fillna p col)) d \<noteq> None"
    using Cons.prems by (simp add: map_of_set_col)
  from Cons.IH [OF this] col show ?case
    by (simp add: get_col_def)
qed

lemma map_of_filter_rows_None:
  "map_of (filter_rows k df) m = None \<longleftrightarrow> map_of df m = None"
  by (induction df) (auto simp add: filter_rows_def)

lemma pop_80_plus_not_age: "''pop_80_plus'' \<notin> set age_columns"
  by (simp add: age_columns_def)

lemma GEO_ID_not_age: "''GEO_ID'' \<notin> set age_columns"
  by (simp add: age_columns_def)

lemma study_area_lacks_column:
  assumes "map_of df1 ''pop_80_plus'' = None"
  shows "get_col (filter_rows k (set_col (set_col df1 ''pop_65_plus'' c1) ''GEOID'' c2))
      ''pop_80_plus'' = Inl (KeyError ''pop_80_plus'')"
proof -
  have "map_of (filter_rows k (set_col (set_col df1 ''pop_65_plus'' c1) ''GEOID'' c2))
      ''pop_80_plus'' = None"
    using assms by (simp add: map_of_filter_rows_None map_of_set_col)
  then show ?thesis
    by (simp add: get_col_def)
qed

lemma census_fails:
  assumes "map_of df ''pop_80_plus'' = None"
  shows "\<exists>e. census_statistics p df = Inl e"
proof (cases "convert_columns p age_columns df")
  case (Inl e)
  then show ?thesis by (simp add: census_statistics_def)
next
  case (Inr df1)
  have "map_of df1 ''pop_80_plus'' = None"
    using convert_columns_other [OF Inr pop_80_plus_not_age] assms by simp
  note study_area_lacks_column [OF this]
  then show ?thesis
    using Inr by (simp add: census_statistics_def Let_def split: sum.splits)
qed

lemma census_key_error:
  assumes "map_of df ''pop_80_plus'' = None"
    and "\<forall>c \<in> set age_columns. map_of df c \<noteq> None"
    and "map_of df ''GEO_ID'' = Some (TextCol ss)"
  shows "census_statistics p df = Inl (KeyError ''pop_80_plus'')"
proof -
  from convert_columns_present [OF assms(2)] obtain df1
    where df1: "convert_columns p age_columns df = Inr df1" by blast
  have none: "map_of df1 ''pop_80_plus'' = None"
    using convert_columns_other [OF df1 pop_80_plus_not_age] assms(1) by simp
  have geo: "map_of df1 ''GEO_ID'' = Some (TextCol ss)"
    using convert_columns_other [OF df1 GEO_ID_not_age] assms(3) by simp
  note study_area_lacks_column [OF none]
  then show ?thesis
    using df1 geo
    by (simp add: census_statistics_def Let_def get_col_def map_of_set_col col_str_remove_def)
qed

text \<open>
  C9, as the code has it. On every census table that has no column named
  \<open>pop_80_plus\<close> the census section ends in an exception before the summary is
  printed; when the twelve age columns and a text column \<open>GEO_ID\<close> are there, the
  exception is the \<open>KeyError\<close> for \<open>pop_80_plus\<close>.
\<close>

theorem census_section_fails_without_column:
  assumes "map_of df ''pop_80_plus'' = None"
  shows "(\<exists>e. census_statistics p df = Inl e) \<and>
    ((\<forall>c \<in> set age_columns. map_of df c \<noteq> None) \<and>
     (\<exists>ss. map_of df ''GEO_ID'' = Some (TextCol ss)) \<longrightarrow>
     census_statistics p df = Inl (KeyError ''pop_80_plus''))"
  using census_fails [OF assms] census_key_error [OF assms] by blast

lemma example_acs_columns:
  "map_of example_acs ''pop_80_plus'' = None"
  "\<forall>c \<in> set age_columns. map_of example_acs c \<noteq> None"
  "map_of example_acs ''GEO_ID'' =
     Some (TextCol [''1400000US49035100100'', ''1400000US49011125101'',
                    ''1400000US49049000101''])"
  by (simp_all add: example_acs_def age_columns_def)

theorem census_section_fails_without_column_witness:
  "map_of example_acs ''pop_80_plus'' = None \<and>
   census_statistics (\<lambda>s. None) example_acs = Inl (KeyError ''pop_80_plus'')"
  using census_section_fails_without_column [of example_acs "\<lambda>s. None"] example_acs_columns
  by blast

text \<open>
  The failure is not unconditional: a table that brings its own \<open>pop_80_plus\<close> column
  passes the filter and reaches the summary.
\<close>

theorem census_section_passes_with_column:
  "map_of example_acs_with_column ''pop_80_plus'' = Some (FloatCol [Some 0, Some 4, Some 7]) \<and>
   census_statistics (\<lambda>s. None) example_acs_with_column =
     Inr \<lparr>total_tracts = 2, inhabited_tracts = 1, total_population = 4\<rparr>"
  by (simp add: example_acs_with_column_def example_acs_def census_statistics_def age_columns_def
      get_col_def to_numeric_fillna_def nrows_def col_length_def float_cells_def
      str_remove_def col_str_remove_def startswith_def keep_cells_def filter_rows_def
      col_gt_zero_def Let_def)

end
